theory Spec2Isabelle
  imports Complex_Main "HOL-Library.AList"
begin

section \<open>Shared types (types/agent.types.ts, types/task.types.ts)\<close>

text \<open>
  Enumerations are datatypes, interfaces are records. A record field carries a short
  prefix naming its interface, because two interfaces of the source share field names
  (\<open>id\<close>, \<open>name\<close>, \<open>description\<close>, \<open>taskId\<close>, \<open>duration\<close>). A JavaScript \<open>Date\<close> is its
  \<open>getTime()\<close> value, an \<open>int\<close> of milliseconds. A JavaScript \<open>number\<close> that holds a
  count or a time is an \<open>int\<close>; one that holds a ratio or a score is a \<open>real\<close>.
\<close>

datatype AgentRole = ORCHESTRATOR | FRONTEND | BACKEND | DEVOPS | QA | FULL_STACK

datatype AgentStatus = INACTIVE | ACTIVE | BUSY | ERROR | STARTING | STOPPING

record AgentCapability =
  cap_name :: string
  cap_level :: int
  cap_description :: string

record AgentMetrics =
  tasksCompleted :: int
  averageTaskDuration :: real
  successRate :: real
  codeQualityScore :: real
  collaborationScore :: real
  lastActivityTime :: int

text \<open>
  \<open>IAgent\<close> is the registry's view of an agent. The interface declares \<open>metrics\<close> as
  always present, but \<open>calculatePerformanceScore\<close> tests \<open>!agent.metrics\<close>, so the field
  is optional here: \<open>None\<close> is an agent object without a \<open>metrics\<close> property.
\<close>

record IAgent =
  agent_id :: string
  agent_name :: string
  role :: AgentRole
  capabilities :: "AgentCapability list"
  status :: AgentStatus
  workingDirectory :: string
  lastActivity :: int
  metrics :: "AgentMetrics option"

text \<open>
  \<open>AgentConfig.role\<close> is kept as the string the configuration holds, since
  \<open>validateAgentConfig\<close> checks it against the values of the \<open>AgentRole\<close> enum at run time.
\<close>

record AgentConfig =
  cfg_id :: string
  cfg_name :: string
  cfg_role :: string
  cfg_workingDirectory :: string
  cfg_capabilities :: "AgentCapability list"
  maxConcurrentTasks :: int
  cfg_healthCheckInterval :: int

datatype TaskType = FEATURE | BUG_FIX | REFACTOR | TEST | DOCUMENTATION | DEPLOYMENT
  | CODE_REVIEW | INTEGRATION | OPTIMIZATION

datatype RequirementType = functional | technical | quality

record TaskRequirement =
  req_id :: string
  req_description :: string
  req_type :: RequirementType
  req_satisfied :: bool

record Task =
  task_id :: string
  task_type :: TaskType
  task_title :: string
  task_description :: string
  requirements :: "TaskRequirement list"
  estimatedDuration :: int
  task_files :: "string list"

record TaskResult =
  res_taskId :: string
  res_success :: bool
  res_output :: "string option"
  res_error :: "string option"
  res_duration :: int
  res_changedFiles :: "string list"
  res_completedAt :: int

record TaskAssignment =
  asg_taskId :: string
  asg_agentId :: string
  assignedAt :: int
  estimatedCompletion :: int
  asg_confidence :: real

text \<open>The string value of each enum member, as the TypeScript enums declare them.\<close>

fun roleValue :: "AgentRole \<Rightarrow> string" where
  "roleValue ORCHESTRATOR = ''orchestrator''"
| "roleValue FRONTEND = ''frontend''"
| "roleValue BACKEND = ''backend''"
| "roleValue DEVOPS = ''devops''"
| "roleValue QA = ''qa''"
| "roleValue FULL_STACK = ''full_stack''"

fun taskTypeValue :: "TaskType \<Rightarrow> string" where
  "taskTypeValue FEATURE = ''feature''"
| "taskTypeValue BUG_FIX = ''bug_fix''"
| "taskTypeValue REFACTOR = ''refactor''"
| "taskTypeValue TEST = ''test''"
| "taskTypeValue DOCUMENTATION = ''documentation''"
| "taskTypeValue DEPLOYMENT = ''deployment''"
| "taskTypeValue CODE_REVIEW = ''code_review''"
| "taskTypeValue INTEGRATION = ''integration''"
| "taskTypeValue OPTIMIZATION = ''optimization''"

section \<open>String primitives of the JavaScript runtime\<close>

text \<open>
  Strings are lists of 8-bit characters, so \<open>toLowerCase\<close> is the ASCII case mapping
  and \<open>trim\<close> strips the ASCII white space; \<open>startsWith\<close> and \<open>str_includes\<close> are
  \<open>String.prototype.startsWith\<close> and \<open>String.prototype.includes\<close>, with the receiver first.
\<close>

definition lowerChar :: "char \<Rightarrow> char" where
  "lowerChar c =
     (case map_of (zip ''ABCDEFGHIJKLMNOPQRSTUVWXYZ'' ''abcdefghijklmnopqrstuvwxyz'') c of
        Some d \<Rightarrow> d
      | None \<Rightarrow> c)"

definition toLowerCase :: "string \<Rightarrow> string" where
  "toLowerCase s = map lowerChar s"

definition isSpace :: "char \<Rightarrow> bool" where
  "isSpace c = (c \<in> set [CHR '' '', CHR 0x09, CHR 0x0A, CHR 0x0B, CHR 0x0C, CHR 0x0D])"

definition trim :: "string \<Rightarrow> string" where
  "trim s = rev (dropWhile isSpace (rev (dropWhile isSpace s)))"

fun startsWith :: "string \<Rightarrow> string \<Rightarrow> bool" where
  "startsWith s [] = True"
| "startsWith [] (p # ps) = False"
| "startsWith (c # cs) (p # ps) = (c = p \<and> startsWith cs ps)"

fun str_includes :: "string \<Rightarrow> string \<Rightarrow> bool" where
  "str_includes [] n = (n = [])"
| "str_includes (c # cs) n = (startsWith (c # cs) n \<or> str_includes cs n)"

section \<open>Agent registry (agents/agent-registry.ts)\<close>

text \<open>
  The registry's two \<open>Map\<close>s are association lists in insertion order:
  \<open>Map.set\<close> is \<open>AList.update\<close> (replace in place, else append), \<open>Map.delete\<close> is
  \<open>AList.delete\<close>, \<open>Map.has\<close> asks \<open>map_of\<close>, \<open>Map.size\<close> is \<open>length\<close>.
  \<open>maxAgents\<close> is a whole number of agents.
\<close>

record AgentRegistryConfig =
  maxAgents :: int
  healthCheckInterval :: int
  autoRestart :: bool

record AgentRegistry =
  agents :: "(string \<times> IAgent) list"
  agentConfigs :: "(string \<times> AgentConfig) list"
  config :: AgentRegistryConfig
  assignmentHistory :: "TaskAssignment list"

text \<open>One constructor for each \<open>throw new Error(...)\<close> of the registry, with the values its message quotes.\<close>

datatype RegistryError =
    MaximumAgentsReached int
  | AlreadyRegistered string
  | AgentIdRequired
  | AgentNameRequired
  | InvalidAgentRole string
  | WorkingDirectoryRequired
  | MaxConcurrentTasksTooSmall
  | AgentNotFound string
  | AgentNotActive string AgentStatus
  | NoSuitableAgent

definition roleValues :: "string list" where
  "roleValues = map roleValue [ORCHESTRATOR, FRONTEND, BACKEND, DEVOPS, QA, FULL_STACK]"

definition validateAgentConfig :: "AgentConfig \<Rightarrow> RegistryError option" where
  "validateAgentConfig c =
     (if cfg_id c = [] \<or> trim (cfg_id c) = [] then Some AgentIdRequired
      else if cfg_name c = [] \<or> trim (cfg_name c) = [] then Some AgentNameRequired
      else if cfg_role c \<notin> set roleValues then Some (InvalidAgentRole (cfg_role c))
      else if cfg_workingDirectory c = [] \<or> trim (cfg_workingDirectory c) = []
        then Some WorkingDirectoryRequired
      else if maxConcurrentTasks c < 1 then Some MaxConcurrentTasksTooSmall
      else None)"

text \<open>
  \<open>registerAgent\<close> returns the outcome of the call (\<open>Inl\<close> the error it rejects with)
  together with the registry afterwards. Every \<open>throw\<close> happens before the first
  \<open>Map.set\<close>; the \<open>catch\<close> block logs and rethrows.
\<close>

definition registerAgent ::
  "AgentRegistry \<Rightarrow> IAgent \<Rightarrow> AgentConfig \<Rightarrow> (RegistryError + unit) \<times> AgentRegistry" where
  "registerAgent r agent c =
     (if int (length (agents r)) \<ge> maxAgents (config r)
        then (Inl (MaximumAgentsReached (maxAgents (config r))), r)
      else if map_of (agents r) (agent_id agent) \<noteq> None
        then (Inl (AlreadyRegistered (agent_id agent)), r)
      else case validateAgentConfig c of
          Some e \<Rightarrow> (Inl e, r)
        | None \<Rightarrow>
            (Inr (),
             r\<lparr>agents := AList.update (agent_id agent) agent (agents r),
               agentConfigs := AList.update (agent_id agent) c (agentConfigs r)\<rparr>))"

text \<open>\<open>getAllAgents\<close> lists the map's values in insertion order.\<close>

definition getAllAgents :: "AgentRegistry \<Rightarrow> IAgent list" where
  "getAllAgents r = map snd (agents r)"

record AgentMatchResult =
  match_agent :: IAgent
  match_confidence :: real
  reasoning :: "string list"

definition technicalRequirements :: "Task \<Rightarrow> TaskRequirement list" where
  "technicalRequirements task = filter (\<lambda>req. req_type req = technical) (requirements task)"

definition canAgentHandleTask :: "IAgent \<Rightarrow> Task \<Rightarrow> bool" where
  "canAgentHandleTask agent task =
     (let requiredCapabilities = map req_description (technicalRequirements task)
      in list_all (\<lambda>capability.
           list_ex (\<lambda>agentCap.
             str_includes (toLowerCase (cap_name agentCap)) (toLowerCase capability))
             (capabilities agent))
           requiredCapabilities)"

fun compatibility :: "AgentRole \<Rightarrow> string list" where
  "compatibility FRONTEND = [''frontend'', ''ui'', ''component'', ''styling'']"
| "compatibility BACKEND = [''backend'', ''api'', ''database'', ''server'']"
| "compatibility DEVOPS = [''deployment'', ''infrastructure'', ''ci/cd'', ''monitoring'']"
| "compatibility QA = [''testing'', ''quality'', ''validation'', ''bug'']"
| "compatibility FULL_STACK = [''frontend'', ''backend'', ''ui'', ''api'']"
| "compatibility ORCHESTRATOR = [''coordination'', ''management'', ''planning'']"

definition getRoleTaskBonus :: "AgentRole \<Rightarrow> string \<Rightarrow> real" where
  "getRoleTaskBonus r taskType =
     (let roleKeywords = compatibility r; taskTypeLower = toLowerCase taskType
      in if list_ex (\<lambda>keyword. str_includes taskTypeLower keyword) roleKeywords
         then 3 / 10 else 0)"

definition calculateCapabilityScore :: "IAgent \<Rightarrow> Task \<Rightarrow> real" where
  "calculateCapabilityScore agent task =
     (let requiredCapabilities = length (technicalRequirements task)
      in if requiredCapabilities = 0 then 2 / 10
         else
           let matchingCapabilities =
                 filter (\<lambda>capability.
                   list_ex (\<lambda>req.
                     str_includes (toLowerCase (req_description req))
                       (toLowerCase (cap_name capability)))
                     (requirements task))
                   (capabilities agent)
           in min (3 / 10)
                (real (length matchingCapabilities) / real requiredCapabilities * (3 / 10)))"

definition calculateLoadScore :: "IAgent \<Rightarrow> real" where
  "calculateLoadScore agent =
     (if status agent = ACTIVE then 2 / 10
      else if status agent = BUSY then 1 / 10
      else 0)"

definition calculatePerformanceScore :: "IAgent \<Rightarrow> real" where
  "calculatePerformanceScore agent =
     (case metrics agent of
        None \<Rightarrow> 1 / 10
      | Some m \<Rightarrow>
          min (2 / 10) ((successRate m + codeQualityScore m / 100) / 2 * (2 / 10)))"

definition calculateAgentTaskMatch :: "IAgent \<Rightarrow> Task \<Rightarrow> AgentMatchResult" where
  "calculateAgentTaskMatch agent task =
     (let roleBonus = getRoleTaskBonus (role agent) (taskTypeValue (task_type task));
          capabilityScore = calculateCapabilityScore agent task;
          loadScore = calculateLoadScore agent;
          performanceScore = calculatePerformanceScore agent;
          confidence = 0 + roleBonus + capabilityScore + loadScore + performanceScore
      in \<lparr>match_agent = agent,
          match_confidence = min 1 confidence,
          reasoning =
            (if roleBonus > 0
               then [''Role '' @ roleValue (role agent) @ '' matches task type ''
                       @ taskTypeValue (task_type task)]
               else [])
            @ (if capabilityScore > 0 then [''Agent has relevant capabilities''] else [])
            @ (if loadScore > 0 then [''Agent has low current load''] else [])
            @ (if performanceScore > 0 then [''Agent has good performance history''] else [])\<rparr>)"

text \<open>
  The \<open>for\<close> loop of \<open>findBestAgentForTask\<close>: \<open>bestMatch\<close> is replaced only by a
  strictly greater confidence.
\<close>

fun bestMatchLoop ::
  "AgentMatchResult option \<Rightarrow> IAgent list \<Rightarrow> Task \<Rightarrow> AgentMatchResult option" where
  "bestMatchLoop bestMatch [] task = bestMatch"
| "bestMatchLoop bestMatch (agent # rest) task =
     (let matchResult = calculateAgentTaskMatch agent task
      in bestMatchLoop
           (case bestMatch of
              None \<Rightarrow> Some matchResult
            | Some b \<Rightarrow>
                if match_confidence matchResult > match_confidence b
                then Some matchResult else Some b)
           rest task)"

definition availableAgents :: "AgentRegistry \<Rightarrow> Task \<Rightarrow> IAgent list" where
  "availableAgents r task =
     filter (\<lambda>agent. status agent = ACTIVE \<and> canAgentHandleTask agent task) (getAllAgents r)"

text \<open>\<open>findBestAgentForTask\<close> reads the registry and writes nothing; \<open>None\<close> is \<open>null\<close>.\<close>

definition findBestAgentForTask :: "AgentRegistry \<Rightarrow> Task \<Rightarrow> AgentMatchResult option" where
  "findBestAgentForTask r task =
     (if length (availableAgents r task) = 0 then None
      else bestMatchLoop None (availableAgents r task) task)"

section \<open>Agent base class (BaseAgent)\<close>

text \<open>
  The fields of \<open>BaseAgent\<close> that \<open>executeTask\<close> reads or writes, named \<open>this_\<close> as the
  source writes \<open>this.\<close>; the constructor always creates \<open>metrics\<close>.
  A thrown value is an \<open>Error\<close> object with its message, or any other value with its
  \<open>String(...)\<close> rendering; \<open>errorMessage\<close> is
  \<open>error instanceof Error ? error.message : String(error)\<close>.
\<close>

record BaseAgent =
  this_id :: string
  this_name :: string
  this_role :: AgentRole
  this_capabilities :: "AgentCapability list"
  this_status :: AgentStatus
  this_workingDirectory :: string
  this_lastActivity :: int
  this_metrics :: AgentMetrics
  currentTask :: "Task option"

datatype thrown = ErrorObject string | OtherValue string

fun errorMessage :: "thrown \<Rightarrow> string" where
  "errorMessage (ErrorObject message) = message"
| "errorMessage (OtherValue rendering) = rendering"

text \<open>
  The two abstract methods a concrete agent supplies. \<open>performTask\<close> is the task body:
  it sees the agent, may change it, and either returns a result or throws.
\<close>

record AgentImpl =
  canHandleTask :: "BaseAgent \<Rightarrow> Task \<Rightarrow> bool"
  performTask :: "BaseAgent \<Rightarrow> Task \<Rightarrow> (thrown + TaskResult) \<times> BaseAgent"

definition updateLastActivity :: "int \<Rightarrow> BaseAgent \<Rightarrow> BaseAgent" where
  "updateLastActivity now a =
     a\<lparr>this_lastActivity := now,
       this_metrics := (this_metrics a)\<lparr>lastActivityTime := now\<rparr>\<rparr>"

text \<open>
  \<open>updateStatus\<close> also emits a status-changed event when the status differs. The event
  bus catches every fault of its listeners inside \<open>emit\<close>, and neither it nor the logger
  touches the agent, so events and log lines are left out of the agent's state.
\<close>

definition updateStatus :: "int \<Rightarrow> AgentStatus \<Rightarrow> BaseAgent \<Rightarrow> BaseAgent" where
  "updateStatus now s a = updateLastActivity now (a\<lparr>this_status := s\<rparr>)"

definition updateMetrics :: "int \<Rightarrow> TaskResult \<Rightarrow> BaseAgent \<Rightarrow> BaseAgent" where
  "updateMetrics now result a =
     (let m = this_metrics a;
          completed = (if res_success result then tasksCompleted m + 1 else tasksCompleted m);
          currentAvg = averageTaskDuration m;
          totalTasks = completed + (if res_success result then 0 else 1);
          newAvg = (currentAvg * real_of_int (totalTasks - 1) + real_of_int (res_duration result))
                     / real_of_int totalTasks;
          successfulTasks = completed;
          newRate = (if totalTasks > 0
                     then real_of_int successfulTasks / real_of_int totalTasks else 0)
      in updateLastActivity now
           (a\<lparr>this_metrics :=
                m\<lparr>tasksCompleted := completed,
                  averageTaskDuration := newAvg,
                  successRate := newRate\<rparr>\<rparr>))"

text \<open>
  \<open>executeTask\<close> reads the clock at entry (\<open>startTime\<close>) and again once the body has
  returned or thrown (\<open>endTime\<close>); the reads before the body are taken as \<open>startTime\<close>,
  those after it as \<open>endTime\<close>. \<open>enterTask\<close> is the agent as the body finds it.
  \<open>executeTask_try\<close> is the \<open>try\<close> block, \<open>Inl\<close> a value thrown inside it;
  \<open>executeTask\<close> adds the \<open>catch\<close> block. Its own result is a sum as well, so that a
  rejection of the returned promise would be an \<open>Inl\<close>.
\<close>

definition enterTask :: "int \<Rightarrow> BaseAgent \<Rightarrow> Task \<Rightarrow> BaseAgent" where
  "enterTask startTime a task = (updateStatus startTime BUSY a)\<lparr>currentTask := Some task\<rparr>"

definition executeTask_try ::
  "AgentImpl \<Rightarrow> int \<Rightarrow> int \<Rightarrow> BaseAgent \<Rightarrow> Task \<Rightarrow> (thrown + TaskResult) \<times> BaseAgent" where
  "executeTask_try impl startTime endTime a task =
     (let a1 = enterTask startTime a task
      in if \<not> canHandleTask impl a1 task
         then (Inl (ErrorObject (''Agent '' @ this_id a1 @ '' cannot handle task of type ''
                                  @ taskTypeValue (task_type task))), a1)
         else
           case performTask impl a1 task of
             (Inl e, a2) \<Rightarrow> (Inl e, a2)
           | (Inr result, a2) \<Rightarrow>
               let duration = endTime - startTime;
                   result' = result\<lparr>res_duration := duration, res_completedAt := endTime\<rparr>;
                   a3 = updateMetrics endTime result' a2;
                   a4 = a3\<lparr>currentTask := None\<rparr>;
                   a5 = updateStatus endTime ACTIVE a4
               in (Inr result', a5))"

definition executeTask ::
  "AgentImpl \<Rightarrow> int \<Rightarrow> int \<Rightarrow> BaseAgent \<Rightarrow> Task \<Rightarrow> (thrown + TaskResult) \<times> BaseAgent" where
  "executeTask impl startTime endTime a task =
     (case executeTask_try impl startTime endTime a task of
        (Inr result, a') \<Rightarrow> (Inr result, a')
      | (Inl error, a') \<Rightarrow>
          let duration = endTime - startTime;
              errorResult = \<lparr>res_taskId = task_id task,
                             res_success = False,
                             res_output = None,
                             res_error = Some (errorMessage error),
                             res_duration = duration,
                             res_changedFiles = [],
                             res_completedAt = endTime\<rparr>;
              a1 = updateMetrics endTime errorResult a';
              a2 = a1\<lparr>currentTask := None\<rparr>;
              a3 = updateStatus endTime ACTIVE a2
          in (Inr errorResult, a3))"

text \<open>
  A sequence of \<open>executeTask\<close> calls on one agent, each with its two clock readings;
  a call that rejected would end the sequence with the agent as it then is.
\<close>

fun executeTasks :: "AgentImpl \<Rightarrow> (int \<times> int \<times> Task) list \<Rightarrow> BaseAgent \<Rightarrow> BaseAgent" where
  "executeTasks impl [] a = a"
| "executeTasks impl ((startTime, endTime, task) # calls) a =
     (case executeTask impl startTime endTime a task of
        (Inr result, a') \<Rightarrow> executeTasks impl calls a'
      | (Inl error, a') \<Rightarrow> a')"

subsection \<open>The development agent's gate (DevelopmentAgent.canHandleTask)\<close>

text \<open>
  The one concrete agent of the repository supports five task types and asks, for
  every technical requirement, for a capability of level 5 or more whose name contains
  the requirement.
\<close>

definition supportedTaskTypes :: "TaskType list" where
  "supportedTaskTypes = [FEATURE, BUG_FIX, REFACTOR, CODE_REVIEW, DOCUMENTATION]"

definition DevelopmentAgent_canHandleTask :: "BaseAgent \<Rightarrow> Task \<Rightarrow> bool" where
  "DevelopmentAgent_canHandleTask a task =
     (if task_type task \<notin> set supportedTaskTypes then False
      else
        let requiredCapabilities =
              map (\<lambda>req. toLowerCase (req_description req)) (technicalRequirements task)
        in list_all (\<lambda>capability.
             list_ex (\<lambda>agentCap.
               str_includes (toLowerCase (cap_name agentCap)) capability
                 \<and> cap_level agentCap \<ge> 5)
               (this_capabilities a))
             requiredCapabilities)"

section \<open>Worktree manager (WorktreeManager in git/repository.ts)\<close>

datatype WorktreeStatus = active | inactive | corrupted

record WorktreeInfo =
  wt_id :: string
  wt_path :: string
  wt_branch :: string
  wt_agentId :: string
  wt_status :: WorktreeStatus
  wt_lastActivity :: int

record GitOperationResult =
  op_success :: bool
  op_output :: "string option"
  op_error :: "string option"
  op_duration :: int

record WorktreeManager =
  worktrees :: "(string \<times> WorktreeInfo) list"
  baseWorkingDirectory :: string

text \<open>
  What lies outside the process, as \<open>removeWorktreeDirectory\<close> meets it: the dynamic
  import of the git library, \<open>git worktree remove --force\<close> on a path,
  \<open>fs.existsSync\<close> and \<open>fs.promises.rm\<close>. An operation that can fail answers
  \<open>None\<close> when it succeeds and \<open>Some e\<close> when it throws \<open>e\<close>. Log lines and
  events are left out, as for the agent: they do not reach the map of worktrees.
\<close>

record GitEnv =
  importSimpleGit :: "thrown option"
  gitWorktreeRemove :: "string \<Rightarrow> thrown option"
  fsExistsSync :: "string \<Rightarrow> bool"
  fsRm :: "string \<Rightarrow> thrown option"

definition removed :: "string \<Rightarrow> GitOperationResult" where
  "removed worktreePath =
     \<lparr>op_success = True,
      op_output = Some (''Worktree removed from '' @ worktreePath),
      op_error = None,
      op_duration = 0\<rparr>"

definition failed :: "thrown \<Rightarrow> int \<Rightarrow> GitOperationResult" where
  "failed e d =
     \<lparr>op_success = False, op_output = None, op_error = Some (errorMessage e), op_duration = d\<rparr>"

text \<open>
  The inner \<open>try\<close> swallows a failure of the git command and falls back to deleting the
  directory; a failure of that deletion leaves the inner \<open>catch\<close> block and reaches the
  outer one.
\<close>

definition removeWorktreeDirectory :: "GitEnv \<Rightarrow> string \<Rightarrow> GitOperationResult" where
  "removeWorktreeDirectory env worktreePath =
     (case importSimpleGit env of
        Some e \<Rightarrow> failed e 0
      | None \<Rightarrow>
          (case gitWorktreeRemove env worktreePath of
             None \<Rightarrow> removed worktreePath
           | Some gitError \<Rightarrow>
               if fsExistsSync env worktreePath
               then (case fsRm env worktreePath of
                       None \<Rightarrow> removed worktreePath
                     | Some e \<Rightarrow> failed e 0)
               else removed worktreePath))"

text \<open>
  \<open>removeWorktreeForAgent_try\<close> is the \<open>try\<close> block of \<open>removeWorktreeForAgent\<close>;
  the clock is read at entry (\<open>startTime\<close>) and when the result is built (\<open>endTime\<close>).
  The outcome is a sum, \<open>Inl\<close> a rejection of the returned promise.
\<close>

definition removeWorktreeForAgent_try ::
  "GitEnv \<Rightarrow> int \<Rightarrow> int \<Rightarrow> WorktreeManager \<Rightarrow> string
     \<Rightarrow> (thrown + GitOperationResult) \<times> WorktreeManager" where
  "removeWorktreeForAgent_try env startTime endTime mgr agentId =
     (case map_of (worktrees mgr) agentId of
        None \<Rightarrow>
          (Inr \<lparr>op_success = False,
                op_output = None,
                op_error = Some (''No worktree found for agent '' @ agentId),
                op_duration = endTime - startTime\<rparr>,
           mgr)
      | Some worktree \<Rightarrow>
          let result = removeWorktreeDirectory env (wt_path worktree);
              mgr' = (if op_success result
                      then mgr\<lparr>worktrees := AList.delete agentId (worktrees mgr)\<rparr>
                      else mgr)
          in (Inr (result\<lparr>op_duration := endTime - startTime\<rparr>), mgr'))"

definition removeWorktreeForAgent ::
  "GitEnv \<Rightarrow> int \<Rightarrow> int \<Rightarrow> WorktreeManager \<Rightarrow> string
     \<Rightarrow> (thrown + GitOperationResult) \<times> WorktreeManager" where
  "removeWorktreeForAgent env startTime endTime mgr agentId =
     (case removeWorktreeForAgent_try env startTime endTime mgr agentId of
        (Inr result, mgr') \<Rightarrow> (Inr result, mgr')
      | (Inl error, mgr') \<Rightarrow> (Inr (failed error (endTime - startTime)), mgr'))"

definition staleThreshold :: int where
  "staleThreshold = 24 * 60 * 60 * 1000"

text \<open>
  The loop of \<open>cleanupStaleWorktrees\<close> walks the entries of the map while
  \<open>removeWorktreeForAgent\<close> deletes at most the entry being visited, so it visits exactly
  the entries present at the start, in order. The result of \<open>removeWorktreeForAgent\<close>
  is dropped; only a rejection reaches the \<open>catch\<close> block that marks the record.
\<close>

fun cleanupStaleLoop ::
  "GitEnv \<Rightarrow> int \<Rightarrow> (string \<times> WorktreeInfo) list \<Rightarrow> WorktreeManager \<Rightarrow> WorktreeManager" where
  "cleanupStaleLoop env now [] mgr = mgr"
| "cleanupStaleLoop env now ((agentId, worktree) # entries) mgr =
     (let timeSinceLastActivity = now - wt_lastActivity worktree
      in if timeSinceLastActivity > staleThreshold
         then (case removeWorktreeForAgent env now now mgr agentId of
                 (Inr result, mgr') \<Rightarrow> cleanupStaleLoop env now entries mgr'
               | (Inl error, mgr') \<Rightarrow>
                   cleanupStaleLoop env now entries
                     (mgr'\<lparr>worktrees :=
                         AList.update agentId (worktree\<lparr>wt_status := corrupted\<rparr>)
                           (worktrees mgr')\<rparr>))
         else cleanupStaleLoop env now entries mgr)"

definition cleanupStaleWorktrees :: "GitEnv \<Rightarrow> int \<Rightarrow> WorktreeManager \<Rightarrow> WorktreeManager" where
  "cleanupStaleWorktrees env now mgr = cleanupStaleLoop env now (worktrees mgr) mgr"

section \<open>Conflict parser (AutomaticConflictResolver.parseConflictFile)\<close>

text \<open>
  \<open>PartialSection\<close> is \<open>Partial<ConflictSection>\<close>: every field may be \<open>undefined\<close>
  (\<open>None\<close>). The sections are pushed as they are, cast to \<open>ConflictSection\<close>.
  \<open>truthy\<close> is the JavaScript truth value of a string that may be undefined, and
  \<open>orEmpty s\<close> is \<open>s || ''\<close>.
\<close>

record PartialSection =
  startLine :: "nat option"
  endLine :: "nat option"
  ours :: "string option"
  theirs :: "string option"

fun splitOn :: "char \<Rightarrow> string \<Rightarrow> string list" where
  "splitOn d [] = [[]]"
| "splitOn d (c # cs) =
     (if c = d then [] # splitOn d cs
      else (case splitOn d cs of
              [] \<Rightarrow> [[c]]
            | l # ls \<Rightarrow> (c # l) # ls))"

definition truthy :: "string option \<Rightarrow> bool" where
  "truthy s = (s \<noteq> None \<and> s \<noteq> Some [])"

definition orEmpty :: "string option \<Rightarrow> string" where
  "orEmpty s = (case s of None \<Rightarrow> [] | Some t \<Rightarrow> t)"

text \<open>
  One turn of the loop over the lines: the state is the sections pushed so far, the
  section being read and the number of the previous line.
\<close>

definition parseLine ::
  "string \<Rightarrow> PartialSection list \<times> PartialSection option \<times> nat
     \<Rightarrow> PartialSection list \<times> PartialSection option \<times> nat" where
  "parseLine line st =
     (case st of (sections, currentConflict, previous) \<Rightarrow>
        let lineNumber = previous + 1
        in if startsWith line ''<<<<<<<''
           then (sections,
                 Some \<lparr>startLine = Some lineNumber, endLine = None,
                       ours = Some [], theirs = None\<rparr>,
                 lineNumber)
           else (case currentConflict of
                   None \<Rightarrow> (sections, None, lineNumber)
                 | Some c \<Rightarrow>
                     if startsWith line ''=======''
                     then (sections, Some (c\<lparr>ours := Some (orEmpty (ours c))\<rparr>), lineNumber)
                     else if startsWith line ''>>>>>>>''
                     then (sections @ [c\<lparr>endLine := Some lineNumber\<rparr>], None, lineNumber)
                     else if ours c \<noteq> None \<and> \<not> startsWith line ''=======''
                     then (if \<not> truthy (theirs c)
                           then (sections,
                                 Some (c\<lparr>ours := Some (orEmpty (ours c) @ line @ [CHR 0x0A])\<rparr>),
                                 lineNumber)
                           else (sections,
                                 Some (c\<lparr>theirs := Some (orEmpty (theirs c) @ line @ [CHR 0x0A])\<rparr>),
                                 lineNumber))
                     else if startsWith line ''=======''
                     then (sections, Some (c\<lparr>theirs := Some []\<rparr>), lineNumber)
                     else (sections, Some c, lineNumber)))"

text \<open>
  \<open>parseConflictFile\<close> on the content read from the file: the \<open>sections\<close> of the
  \<open>ConflictInfo\<close> it returns. Severity and the auto-resolvable flag are computed from
  these sections afterwards and are not part of this model.
\<close>

definition parseConflictFile :: "string \<Rightarrow> PartialSection list" where
  "parseConflictFile content =
     fst (foldl (\<lambda>st line. parseLine line st) ([], None, 0) (splitOn (CHR 0x0A) content))"

section \<open>The coverage signal as the specification words it\<close>

text \<open>
  Following the specification's words, not the code: the number of technical
  requirements whose description matches, without regard to case, a substring of some
  capability name of the agent (the test \<open>canAgentHandleTask\<close> applies), and the
  coverage signal the specification derives from it.
\<close>

definition claimedMatchedRequirements :: "IAgent \<Rightarrow> Task \<Rightarrow> nat" where
  "claimedMatchedRequirements agent task =
     length (filter (\<lambda>req.
       list_ex (\<lambda>agentCap.
         str_includes (toLowerCase (cap_name agentCap)) (toLowerCase (req_description req)))
         (capabilities agent))
       (technicalRequirements task))"

definition claimedCoverage :: "IAgent \<Rightarrow> Task \<Rightarrow> real" where
  "claimedCoverage agent task =
     (let n = length (technicalRequirements task); m = claimedMatchedRequirements agent task
      in if n = 0 then 2 / 10 else min (3 / 10) (real m / real n * (3 / 10)))"

section \<open>Concrete inputs\<close>

text \<open>A registry as the orchestrator builds it, an agent and its configuration.\<close>

definition sampleAgent :: IAgent where
  "sampleAgent =
     \<lparr>agent_id = ''frontend-001'', agent_name = ''Frontend Developer'', role = FRONTEND,
      capabilities = [], status = ACTIVE, workingDirectory = ''.'', lastActivity = 0,
      metrics = None\<rparr>"

definition sampleConfig :: AgentConfig where
  "sampleConfig =
     \<lparr>cfg_id = ''frontend-001'', cfg_name = ''Frontend Developer'', cfg_role = ''frontend'',
      cfg_workingDirectory = ''.'', cfg_capabilities = [], maxConcurrentTasks = 2,
      cfg_healthCheckInterval = 30000\<rparr>"

definition emptyRegistry :: "int \<Rightarrow> AgentRegistry" where
  "emptyRegistry n =
     \<lparr>agents = [], agentConfigs = [],
      config = \<lparr>maxAgents = n, healthCheckInterval = 30000, autoRestart = True\<rparr>,
      assignmentHistory = []\<rparr>"

text \<open>
  Three active agents without metrics, registered as frontend, backend and qa, each
  with the capability \<open>javascript\<close>, and a feature task that requires it.
\<close>

definition scenarioTask :: Task where
  "scenarioTask =
     \<lparr>task_id = ''task-1'', task_type = FEATURE, task_title = ''Add a feature'',
      task_description = ''New feature'',
      requirements = [\<lparr>req_id = ''r1'', req_description = ''javascript'',
                       req_type = technical, req_satisfied = False\<rparr>],
      estimatedDuration = 60, task_files = []\<rparr>"

definition javascriptCapability :: AgentCapability where
  "javascriptCapability =
     \<lparr>cap_name = ''javascript'', cap_level = 8, cap_description = ''JavaScript development''\<rparr>"

definition scenarioAgent :: "string \<Rightarrow> AgentRole \<Rightarrow> IAgent" where
  "scenarioAgent i r =
     \<lparr>agent_id = i, agent_name = i, role = r, capabilities = [javascriptCapability],
      status = ACTIVE, workingDirectory = ''.'', lastActivity = 0, metrics = None\<rparr>"

definition scenarioRegistry :: AgentRegistry where
  "scenarioRegistry =
     \<lparr>agents = [(''frontend-001'', scenarioAgent ''frontend-001'' FRONTEND),
                (''backend-001'', scenarioAgent ''backend-001'' BACKEND),
                (''qa-001'', scenarioAgent ''qa-001'' QA)],
      agentConfigs = [],
      config = \<lparr>maxAgents = 10, healthCheckInterval = 30000, autoRestart = True\<rparr>,
      assignmentHistory = []\<rparr>"

text \<open>An agent whose capability name contains a requirement, but not the reverse.\<close>

definition reactAgent :: IAgent where
  "reactAgent =
     \<lparr>agent_id = ''frontend-001'', agent_name = ''Frontend Developer'', role = FRONTEND,
      capabilities = [\<lparr>cap_name = ''React Development'', cap_level = 8,
                       cap_description = ''Builds React components''\<rparr>],
      status = ACTIVE, workingDirectory = ''.'', lastActivity = 0, metrics = None\<rparr>"

definition reactTask :: Task where
  "reactTask =
     \<lparr>task_id = ''task-2'', task_type = FEATURE, task_title = ''Build a form'',
      task_description = ''A form component'',
      requirements = [\<lparr>req_id = ''r1'', req_description = ''react'',
                       req_type = technical, req_satisfied = False\<rparr>],
      estimatedDuration = 60, task_files = []\<rparr>"

text \<open>
  A started agent as the constructor leaves its metrics, and an implementation whose
  task body succeeds on the task \<open>ok\<close> and throws on every other task.
\<close>

definition freshAgent :: BaseAgent where
  "freshAgent =
     \<lparr>this_id = ''backend-001'', this_name = ''Backend Developer'', this_role = BACKEND,
      this_capabilities = [], this_status = ACTIVE, this_workingDirectory = ''.'',
      this_lastActivity = 0,
      this_metrics = \<lparr>tasksCompleted = 0, averageTaskDuration = 0, successRate = 0,
                       codeQualityScore = 85, collaborationScore = 0, lastActivityTime = 0\<rparr>,
      currentTask = None\<rparr>"

definition namedTask :: "string \<Rightarrow> Task" where
  "namedTask i =
     \<lparr>task_id = i, task_type = BUG_FIX, task_title = i, task_description = [],
      requirements = [], estimatedDuration = 60, task_files = []\<rparr>"

definition okResult :: "string \<Rightarrow> TaskResult" where
  "okResult i =
     \<lparr>res_taskId = i, res_success = True, res_output = Some ''done'', res_error = None,
      res_duration = 0, res_changedFiles = [], res_completedAt = 0\<rparr>"

definition sampleImpl :: AgentImpl where
  "sampleImpl =
     \<lparr>canHandleTask = (\<lambda>a task. True),
      performTask = (\<lambda>a task.
        if task_id task = ''ok'' then (Inr (okResult (task_id task)), a)
        else (Inl (ErrorObject ''build failed''), a))\<rparr>"

definition failingRun :: "(int \<times> int \<times> Task) list" where
  "failingRun = [(0, 10, namedTask ''ok''), (100, 120, namedTask ''broken''),
                 (200, 230, namedTask ''broken'')]"

text \<open>
  The development agent's gate with a task body that always succeeds, and a task of
  type \<open>test\<close>, which that gate refuses.
\<close>

definition developmentImpl :: AgentImpl where
  "developmentImpl =
     \<lparr>canHandleTask = DevelopmentAgent_canHandleTask,
      performTask = (\<lambda>a task. (Inr (okResult (task_id task)), a))\<rparr>"

definition testTask :: Task where
  "testTask = (namedTask ''ok'')\<lparr>task_type := TEST\<rparr>"

text \<open>
  A worktree last active at time 0, an environment in which both the git command and
  the deletion of the directory fail, one in which the git command succeeds, and a file
  with one conflict region.
\<close>

definition staleWorktree :: WorktreeInfo where
  "staleWorktree =
     \<lparr>wt_id = ''a1'', wt_path = ''/repo/worktrees/agent-a1'', wt_branch = ''agent-a1-1'',
      wt_agentId = ''a1'', wt_status = active, wt_lastActivity = 0\<rparr>"

definition staleManager :: WorktreeManager where
  "staleManager = \<lparr>worktrees = [(''a1'', staleWorktree)], baseWorkingDirectory = ''/repo''\<rparr>"

definition brokenEnv :: GitEnv where
  "brokenEnv =
     \<lparr>importSimpleGit = None,
      gitWorktreeRemove = (\<lambda>p. Some (ErrorObject ''fatal: not a working tree'')),
      fsExistsSync = (\<lambda>p. True),
      fsRm = (\<lambda>p. Some (ErrorObject ''EACCES: permission denied''))\<rparr>"

definition workingEnv :: GitEnv where
  "workingEnv =
     \<lparr>importSimpleGit = None,
      gitWorktreeRemove = (\<lambda>p. None),
      fsExistsSync = (\<lambda>p. True),
      fsRm = (\<lambda>p. None)\<rparr>"

definition conflictFile :: string where
  "conflictFile = ''<<<<<<< HEAD'' @ [CHR 0x0A] @ ''alpha'' @ [CHR 0x0A] @ ''======='' @ [CHR 0x0A]
                  @ ''beta'' @ [CHR 0x0A] @ ''>>>>>>> feature''"

section \<open>Properties of the registry\<close>

lemma length_update_fresh:
  "map_of xs k = None \<Longrightarrow> length (AList.update k v xs) = Suc (length xs)"
  by (induction xs) (auto split: if_splits)

text \<open>
  Claim C1. A registry whose population has reached \<open>maxAgents\<close> rejects every
  registration with the capacity error and is left exactly as it was (agent map,
  configuration map and assignment history included); and a registration never takes
  a population that is within \<open>maxAgents\<close> beyond it.
\<close>

theorem registerAgent_capacity:
  "(int (length (agents r)) \<ge> maxAgents (config r) \<longrightarrow>
      registerAgent r agent c = (Inl (MaximumAgentsReached (maxAgents (config r))), r))
   \<and> (int (length (agents r)) \<le> maxAgents (config r) \<longrightarrow>
      int (length (agents (snd (registerAgent r agent c)))) \<le> maxAgents (config r)
      \<and> config (snd (registerAgent r agent c)) = config r)"
  by (auto simp: registerAgent_def length_update_fresh split: option.splits)

lemma validate_sampleConfig: "validateAgentConfig sampleConfig = None"
  by (simp add: validateAgentConfig_def sampleConfig_def trim_def isSpace_def roleValues_def)

text \<open>
  A registry with room for no agent rejects the sample agent and stays as it was; one
  with room for a single agent accepts it and then holds one agent.
\<close>

theorem registerAgent_capacity_witness:
  "registerAgent (emptyRegistry 0) sampleAgent sampleConfig
     = (Inl (MaximumAgentsReached 0), emptyRegistry 0)
   \<and> length (agents (snd (registerAgent (emptyRegistry 1) sampleAgent sampleConfig))) = 1
   \<and> int (length (agents (snd (registerAgent (emptyRegistry 1) sampleAgent sampleConfig))))
       \<le> maxAgents (config (emptyRegistry 1))"
proof -
  have full: "int (length (agents (emptyRegistry 0))) \<ge> maxAgents (config (emptyRegistry 0))"
    by (simp add: emptyRegistry_def)
  have room: "int (length (agents (emptyRegistry 1))) \<le> maxAgents (config (emptyRegistry 1))"
    by (simp add: emptyRegistry_def)
  have "registerAgent (emptyRegistry 0) sampleAgent sampleConfig
          = (Inl (MaximumAgentsReached (maxAgents (config (emptyRegistry 0)))), emptyRegistry 0)"
    using registerAgent_capacity [of "emptyRegistry 0" sampleAgent sampleConfig] full by blast
  moreover have "maxAgents (config (emptyRegistry 0)) = 0"
    by (simp add: emptyRegistry_def)
  moreover have "length (agents (snd (registerAgent (emptyRegistry 1) sampleAgent sampleConfig))) = 1"
    by (simp add: registerAgent_def emptyRegistry_def validate_sampleConfig)
  moreover have "int (length (agents (snd (registerAgent (emptyRegistry 1) sampleAgent sampleConfig))))
                   \<le> maxAgents (config (emptyRegistry 1))"
    using registerAgent_capacity [of "emptyRegistry 1" sampleAgent sampleConfig] room by blast
  ultimately show ?thesis by simp
qed

section \<open>Properties of the matching algorithm\<close>

subsection \<open>The selection loop\<close>

text \<open>
  Started with a best match \<open>b\<close>, the loop either keeps \<open>b\<close>, when no agent of the list
  scores strictly higher, or ends with the first agent of the list that scores highest
  and strictly higher than \<open>b\<close>.
\<close>

lemma bestMatchLoop_Some:
  "(bestMatchLoop (Some b) xs task = Some b
      \<and> (\<forall>a\<in>set xs. match_confidence (calculateAgentTaskMatch a task) \<le> match_confidence b))
   \<or> (\<exists>pre w post. xs = pre @ w # post
        \<and> bestMatchLoop (Some b) xs task = Some (calculateAgentTaskMatch w task)
        \<and> match_confidence b < match_confidence (calculateAgentTaskMatch w task)
        \<and> (\<forall>a\<in>set pre. match_confidence (calculateAgentTaskMatch a task)
                          < match_confidence (calculateAgentTaskMatch w task))
        \<and> (\<forall>a\<in>set post. match_confidence (calculateAgentTaskMatch a task)
                          \<le> match_confidence (calculateAgentTaskMatch w task)))"
proof (induction xs arbitrary: b)
  case Nil
  then show ?case by simp
next
  case (Cons x xs)
  let ?c = "\<lambda>a. match_confidence (calculateAgentTaskMatch a task)"
  show ?case
  proof (cases "?c x > match_confidence b")
    case True
    then have step: "bestMatchLoop (Some b) (x # xs) task
                       = bestMatchLoop (Some (calculateAgentTaskMatch x task)) xs task"
      by simp
    from Cons.IH [of "calculateAgentTaskMatch x task"] show ?thesis
    proof
      assume h: "bestMatchLoop (Some (calculateAgentTaskMatch x task)) xs task
                   = Some (calculateAgentTaskMatch x task)
                 \<and> (\<forall>a\<in>set xs. ?c a \<le> ?c x)"
      show ?thesis
        by (intro disjI2 exI [of _ "[]"] exI [of _ x] exI [of _ xs])
           (use h step True in simp)
    next
      assume "\<exists>pre w post. xs = pre @ w # post
        \<and> bestMatchLoop (Some (calculateAgentTaskMatch x task)) xs task
             = Some (calculateAgentTaskMatch w task)
        \<and> ?c x < ?c w \<and> (\<forall>a\<in>set pre. ?c a < ?c w) \<and> (\<forall>a\<in>set post. ?c a \<le> ?c w)"
      then obtain pre w post where h: "xs = pre @ w # post"
        "bestMatchLoop (Some (calculateAgentTaskMatch x task)) xs task
             = Some (calculateAgentTaskMatch w task)"
        "?c x < ?c w" "\<forall>a\<in>set pre. ?c a < ?c w" "\<forall>a\<in>set post. ?c a \<le> ?c w"
        by blast
      have "match_confidence b < ?c w" using True h(3) by linarith
      then show ?thesis
        by (intro disjI2 exI [of _ "x # pre"] exI [of _ w] exI [of _ post])
           (use h step in simp)
    qed
  next
    case False
    then have step: "bestMatchLoop (Some b) (x # xs) task = bestMatchLoop (Some b) xs task"
      by simp
    from Cons.IH [of b] show ?thesis
    proof
      assume "bestMatchLoop (Some b) xs task = Some b
                 \<and> (\<forall>a\<in>set xs. ?c a \<le> match_confidence b)"
      with step False show ?thesis by auto
    next
      assume "\<exists>pre w post. xs = pre @ w # post
        \<and> bestMatchLoop (Some b) xs task = Some (calculateAgentTaskMatch w task)
        \<and> match_confidence b < ?c w \<and> (\<forall>a\<in>set pre. ?c a < ?c w)
        \<and> (\<forall>a\<in>set post. ?c a \<le> ?c w)"
      then obtain pre w post where h: "xs = pre @ w # post"
        "bestMatchLoop (Some b) xs task = Some (calculateAgentTaskMatch w task)"
        "match_confidence b < ?c w" "\<forall>a\<in>set pre. ?c a < ?c w" "\<forall>a\<in>set post. ?c a \<le> ?c w"
        by blast
      have "?c x < ?c w" using False h(3) by linarith
      then show ?thesis
        by (intro disjI2 exI [of _ "x # pre"] exI [of _ w] exI [of _ post])
           (use h step in simp)
    qed
  qed
qed


subsection \<open>Evaluated strings and bounds of the signals\<close>

lemma toLowerCase_javascript: "toLowerCase ''javascript'' = ''javascript''"
  by (simp add: toLowerCase_def lowerChar_def)

lemma toLowerCase_feature: "toLowerCase ''feature'' = ''feature''"
  by (simp add: toLowerCase_def lowerChar_def)

lemma bonus_feature:
  "getRoleTaskBonus FRONTEND ''feature'' = 0"
  "getRoleTaskBonus BACKEND ''feature'' = 0"
  "getRoleTaskBonus QA ''feature'' = 0"
  by (simp_all add: getRoleTaskBonus_def toLowerCase_feature)

lemma calculateCapabilityScore_le: "calculateCapabilityScore agent task \<le> 3 / 10"
proof (cases "length (technicalRequirements task) = 0")
  case True
  then show ?thesis by (simp add: calculateCapabilityScore_def)
next
  case False
  have "min (3 / 10) x \<le> 3 / 10" for x :: real by (rule min.cobounded1)
  with False show ?thesis unfolding calculateCapabilityScore_def Let_def
    by (simp only: if_False)
qed

lemma lower_react:
  "toLowerCase ''React Development'' = ''react development''"
  "toLowerCase ''react'' = ''react''"
  by (simp_all add: toLowerCase_def lowerChar_def)

lemma confidence_no_bonus:
  assumes "getRoleTaskBonus (role x) (taskTypeValue (task_type task)) = 0"
    and "status x = ACTIVE" and "metrics x = None"
  shows "match_confidence (calculateAgentTaskMatch x task)
           = calculateCapabilityScore x task + 3 / 10"
proof -
  have "calculateCapabilityScore x task \<le> 3 / 10" by (rule calculateCapabilityScore_le)
  then have "min 1 (calculateCapabilityScore x task + 3 / 10)
               = calculateCapabilityScore x task + 3 / 10"
    by simp
  with assms show ?thesis
    by (simp add: calculateAgentTaskMatch_def calculateLoadScore_def
          calculatePerformanceScore_def Let_def)
qed


lemma scenario_available: "availableAgents scenarioRegistry scenarioTask = map snd (agents scenarioRegistry)"
  by (simp add: availableAgents_def getAllAgents_def canAgentHandleTask_def technicalRequirements_def
        scenarioRegistry_def scenarioAgent_def scenarioTask_def javascriptCapability_def
        toLowerCase_javascript)

subsection \<open>The capability-coverage signal\<close>

text \<open>
  Claim C6, evaluated on the code. The agent's capability is \<open>React Development\<close> and
  the task has the one technical requirement \<open>react\<close>. The requirement is a substring
  of the capability name, so \<open>canAgentHandleTask\<close> accepts the agent, one technical
  requirement of one is matched and the coverage signal should be
  \<open>min 0.3 (1 / 1 * 0.3) = 0.3\<close>. \<open>calculateCapabilityScore\<close> tests the opposite
  direction, the capability name inside the requirement, finds no capability and
  returns 0.
\<close>

theorem capability_coverage_reversed:
  "canAgentHandleTask reactAgent reactTask
   \<and> length (technicalRequirements reactTask) = 1
   \<and> claimedMatchedRequirements reactAgent reactTask = 1
   \<and> claimedCoverage reactAgent reactTask = 3 / 10
   \<and> calculateCapabilityScore reactAgent reactTask = 0
   \<and> calculateCapabilityScore reactAgent reactTask \<noteq> claimedCoverage reactAgent reactTask"
  by (simp add: canAgentHandleTask_def claimedCoverage_def claimedMatchedRequirements_def
        calculateCapabilityScore_def technicalRequirements_def reactAgent_def reactTask_def
        lower_react)

subsection \<open>The scenario of three agents and a feature task\<close>

text \<open>
  Claim C7, as amended. Three active agents without metrics are registered in the
  order frontend, backend, qa; the frontend agent's one capability is named
  \<open>javascript\<close>; the task has type \<open>feature\<close> and the single technical requirement
  \<open>javascript\<close>. Whatever capabilities the other two agents have,
  \<open>findBestAgentForTask\<close> selects the frontend agent, with confidence 0.6: no role
  affinity, since none of the frontend keywords occurs in \<open>feature\<close>, 0.3 for
  capability coverage, 0.2 for load and 0.1 for the missing metrics.
\<close>

theorem scenarioA_amended:
  assumes roles: "role fe = FRONTEND" "role be = BACKEND" "role qa = QA"
    and act: "status fe = ACTIVE" "status be = ACTIVE" "status qa = ACTIVE"
    and nom: "metrics fe = None" "metrics be = None" "metrics qa = None"
    and caps: "map cap_name (capabilities fe) = [''javascript'']"
    and reg: "agents r = [(i1, fe), (i2, be), (i3, qa)]"
    and ty: "task_type task = FEATURE"
    and reqs: "requirements task = [req]" "req_type req = technical"
              "req_description req = ''javascript''"
  shows "\<exists>m. findBestAgentForTask r task = Some m
             \<and> match_agent m = fe \<and> match_confidence m = 6 / 10"
proof -
  let ?c = "\<lambda>a. match_confidence (calculateAgentTaskMatch a task)"
  from caps obtain c where c: "capabilities fe = [c]" "cap_name c = ''javascript''"
    by auto
  have tech: "technicalRequirements task = [req]"
    using reqs by (simp add: technicalRequirements_def)
  have capF: "calculateCapabilityScore fe task = 3 / 10"
    using c reqs tech by (simp add: calculateCapabilityScore_def toLowerCase_javascript)
  have confF: "?c fe = 6 / 10"
    using confidence_no_bonus [of fe task] roles(1) act(1) nom(1) ty capF
    by (simp add: bonus_feature)
  have confB: "?c be \<le> 6 / 10"
    using confidence_no_bonus [of be task] roles(2) act(2) nom(2) ty
      calculateCapabilityScore_le [of be task]
    by (simp add: bonus_feature)
  have confQ: "?c qa \<le> 6 / 10"
    using confidence_no_bonus [of qa task] roles(3) act(3) nom(3) ty
      calculateCapabilityScore_le [of qa task]
    by (simp add: bonus_feature)
  have cand: "canAgentHandleTask fe task"
    using c reqs tech by (simp add: canAgentHandleTask_def toLowerCase_javascript)
  define rest where
    "rest = filter (\<lambda>agent. status agent = ACTIVE \<and> canAgentHandleTask agent task) [be, qa]"
  have av: "availableAgents r task = fe # rest"
    using reg act(1) cand by (simp add: availableAgents_def getAllAgents_def rest_def)
  have restle: "\<forall>a\<in>set rest. ?c a \<le> ?c fe"
    using confB confQ confF by (auto simp: rest_def)
  have "bestMatchLoop (Some (calculateAgentTaskMatch fe task)) rest task
          = Some (calculateAgentTaskMatch fe task)"
    using bestMatchLoop_Some [of "calculateAgentTaskMatch fe task" rest task] restle
    by fastforce
  then have "findBestAgentForTask r task = Some (calculateAgentTaskMatch fe task)"
    by (simp add: findBestAgentForTask_def av)
  moreover have "match_agent (calculateAgentTaskMatch fe task) = fe"
    by (simp add: calculateAgentTaskMatch_def Let_def)
  ultimately show ?thesis using confF by simp
qed

text \<open>The theorem at the scenario registry.\<close>

theorem scenarioA_amended_witness:
  "\<exists>m. findBestAgentForTask scenarioRegistry scenarioTask = Some m
       \<and> match_agent m = scenarioAgent ''frontend-001'' FRONTEND
       \<and> match_confidence m = 6 / 10"
  by (rule scenarioA_amended
        [of "scenarioAgent ''frontend-001'' FRONTEND" "scenarioAgent ''backend-001'' BACKEND"
            "scenarioAgent ''qa-001'' QA" scenarioRegistry
            "''frontend-001''" "''backend-001''" "''qa-001''" scenarioTask
            "\<lparr>req_id = ''r1'', req_description = ''javascript'',
              req_type = technical, req_satisfied = False\<rparr>"])
     (simp_all add: scenarioAgent_def scenarioRegistry_def scenarioTask_def
        javascriptCapability_def)

text \<open>
  In the scenario as the specification gives it the winner is the frontend agent, but
  its confidence is 0.6 and not 0.9.
\<close>

theorem scenarioA_counterexample:
  "map_option (\<lambda>m. (agent_id (match_agent m), match_confidence m))
     (findBestAgentForTask scenarioRegistry scenarioTask) = Some (''frontend-001'', 6 / 10)
   \<and> map_option match_confidence (findBestAgentForTask scenarioRegistry scenarioTask)
       \<noteq> Some (9 / 10)"
  by (simp add: findBestAgentForTask_def scenario_available)
     (simp add: scenarioRegistry_def calculateAgentTaskMatch_def bonus_feature
        calculateCapabilityScore_def calculateLoadScore_def calculatePerformanceScore_def
        technicalRequirements_def Let_def scenarioAgent_def scenarioTask_def
        javascriptCapability_def toLowerCase_javascript)

subsection \<open>Which candidate wins\<close>



section \<open>Properties of task execution\<close>

lemma updateStatus_fields:
  "this_status (updateStatus now s a) = s"
  "currentTask (updateStatus now s a) = currentTask a"
  by (simp_all add: updateStatus_def updateLastActivity_def)

lemma executeTask_returns:
  "\<exists>res a'. executeTask impl startTime endTime a task = (Inr res, a')
      \<and> this_status a' = ACTIVE \<and> currentTask a' = None"
  by (auto simp: executeTask_def executeTask_try_def Let_def updateStatus_fields
        split: prod.splits sum.splits)

lemma enterTask_id: "this_id (enterTask startTime a task) = this_id a"
  by (simp add: enterTask_def updateStatus_def updateLastActivity_def)

lemma enterTask_status:
  "enterTask startTime (a\<lparr>this_status := s\<rparr>) task = enterTask startTime a task"
  by (simp add: enterTask_def updateStatus_def)

text \<open>
  Claim C2. An agent with status Active is given a task it can handle whose body
  throws \<open>e\<close>. Then \<open>executeTask\<close> does not reject: it returns a result for that task
  with \<open>success = false\<close>, the message of \<open>e\<close> in \<open>error\<close> and the measured duration;
  afterwards the agent's status is Active and it has no current task.
\<close>

theorem executeTask_body_throws:
  assumes "this_status a = ACTIVE"
    and "canHandleTask impl (enterTask startTime a task) task"
    and "performTask impl (enterTask startTime a task) task = (Inl e, a2)"
  shows "\<exists>res a'. executeTask impl startTime endTime a task = (Inr res, a')
           \<and> res_success res = False
           \<and> res_error res = Some (errorMessage e)
           \<and> res_duration res = endTime - startTime
           \<and> res_taskId res = task_id task
           \<and> this_status a' = ACTIVE
           \<and> currentTask a' = None"
  using assms
  by (simp add: executeTask_def executeTask_try_def Let_def updateStatus_fields)

text \<open>The started agent runs the task \<open>broken\<close> from time 100 to time 130.\<close>

theorem executeTask_body_throws_witness:
  "\<exists>res a'. executeTask sampleImpl 100 130 freshAgent (namedTask ''broken'') = (Inr res, a')
           \<and> res_success res = False
           \<and> res_error res = Some ''build failed''
           \<and> res_duration res = 30
           \<and> res_taskId res = ''broken''
           \<and> this_status a' = ACTIVE
           \<and> currentTask a' = None"
  using executeTask_body_throws
    [where a = freshAgent and impl = sampleImpl and startTime = 100 and endTime = 130
       and task = "namedTask ''broken''" and e = "ErrorObject ''build failed''"
       and ?a2.0 = "enterTask 100 freshAgent (namedTask ''broken'')"]
  by (simp add: freshAgent_def sampleImpl_def namedTask_def)

text \<open>
  Claim C9, as amended. \<open>executeTask\<close> has no status precondition. Its outcome does not
  depend on the status the agent starts in; it always resolves, and then the status is
  Active and there is no current task, whether the task succeeded or not. The body
  runs when the agent's own \<open>canHandleTask\<close> accepts the task: what \<open>executeTask\<close>
  returns is then the body's result, stamped with the duration and the completion
  time, or the failed result made from what the body threw. When \<open>canHandleTask\<close>
  refuses the task the body is not run: the outcome is the same for every body, a
  failed result that says the agent cannot handle the task.
\<close>

theorem executeTask_any_status:
  "executeTask impl startTime endTime (a\<lparr>this_status := s\<rparr>) task
     = executeTask impl startTime endTime a task
   \<and> (\<exists>res a'. executeTask impl startTime endTime a task = (Inr res, a')
         \<and> this_status a' = ACTIVE \<and> currentTask a' = None)
   \<and> (canHandleTask impl (enterTask startTime a task) task \<longrightarrow>
        (\<forall>res a2. performTask impl (enterTask startTime a task) task = (Inr res, a2) \<longrightarrow>
           fst (executeTask impl startTime endTime a task)
             = Inr (res\<lparr>res_duration := endTime - startTime, res_completedAt := endTime\<rparr>))
        \<and> (\<forall>e a2. performTask impl (enterTask startTime a task) task = (Inl e, a2) \<longrightarrow>
           (\<exists>res. fst (executeTask impl startTime endTime a task) = Inr res
              \<and> \<not> res_success res \<and> res_error res = Some (errorMessage e))))
   \<and> (\<not> canHandleTask impl (enterTask startTime a task) task \<longrightarrow>
        (\<forall>body. executeTask (impl\<lparr>performTask := body\<rparr>) startTime endTime a task
                   = executeTask impl startTime endTime a task)
        \<and> (\<exists>res. fst (executeTask impl startTime endTime a task) = Inr res
              \<and> \<not> res_success res
              \<and> res_error res = Some (''Agent '' @ this_id a @ '' cannot handle task of type ''
                                         @ taskTypeValue (task_type task))))"
proof (intro conjI)
  show "executeTask impl startTime endTime (a\<lparr>this_status := s\<rparr>) task
          = executeTask impl startTime endTime a task"
    by (simp add: executeTask_def executeTask_try_def enterTask_status)
  show "\<exists>res a'. executeTask impl startTime endTime a task = (Inr res, a')
         \<and> this_status a' = ACTIVE \<and> currentTask a' = None"
    by (rule executeTask_returns)
  show "canHandleTask impl (enterTask startTime a task) task \<longrightarrow>
        (\<forall>res a2. performTask impl (enterTask startTime a task) task = (Inr res, a2) \<longrightarrow>
           fst (executeTask impl startTime endTime a task)
             = Inr (res\<lparr>res_duration := endTime - startTime, res_completedAt := endTime\<rparr>))
        \<and> (\<forall>e a2. performTask impl (enterTask startTime a task) task = (Inl e, a2) \<longrightarrow>
           (\<exists>res. fst (executeTask impl startTime endTime a task) = Inr res
              \<and> \<not> res_success res \<and> res_error res = Some (errorMessage e)))"
    by (simp add: executeTask_def executeTask_try_def Let_def)
  show "\<not> canHandleTask impl (enterTask startTime a task) task \<longrightarrow>
        (\<forall>body. executeTask (impl\<lparr>performTask := body\<rparr>) startTime endTime a task
                   = executeTask impl startTime endTime a task)
        \<and> (\<exists>res. fst (executeTask impl startTime endTime a task) = Inr res
              \<and> \<not> res_success res
              \<and> res_error res = Some (''Agent '' @ this_id a @ '' cannot handle task of type ''
                                         @ taskTypeValue (task_type task)))"
    by (simp add: executeTask_def executeTask_try_def Let_def enterTask_id)
qed

text \<open>
  An agent in status Error runs the task \<open>ok\<close> exactly as the started agent does,
  returns the body's result and ends Active; an agent in status Stopping runs the task
  \<open>broken\<close> and returns the failed result; a development agent in status Error is
  given a task of type \<open>test\<close> and returns the refusal, whichever body it has.
\<close>

theorem executeTask_any_status_witness:
  "executeTask sampleImpl 0 10 (freshAgent\<lparr>this_status := ERROR\<rparr>) (namedTask ''ok'')
     = executeTask sampleImpl 0 10 freshAgent (namedTask ''ok'')
   \<and> fst (executeTask sampleImpl 0 10 (freshAgent\<lparr>this_status := ERROR\<rparr>) (namedTask ''ok''))
     = Inr ((okResult ''ok'')\<lparr>res_duration := 10, res_completedAt := 10\<rparr>)
   \<and> this_status (snd (executeTask sampleImpl 0 10 (freshAgent\<lparr>this_status := ERROR\<rparr>)
                          (namedTask ''ok''))) = ACTIVE
   \<and> (\<exists>res. fst (executeTask sampleImpl 0 10 (freshAgent\<lparr>this_status := STOPPING\<rparr>)
                     (namedTask ''broken'')) = Inr res
         \<and> \<not> res_success res \<and> res_error res = Some ''build failed'')
   \<and> executeTask (developmentImpl\<lparr>performTask := performTask sampleImpl\<rparr>) 0 10
         (freshAgent\<lparr>this_status := ERROR\<rparr>) testTask
       = executeTask developmentImpl 0 10 (freshAgent\<lparr>this_status := ERROR\<rparr>) testTask
   \<and> (\<exists>res. fst (executeTask developmentImpl 0 10 (freshAgent\<lparr>this_status := ERROR\<rparr>)
                     testTask) = Inr res
         \<and> \<not> res_success res
         \<and> res_error res = Some ''Agent backend-001 cannot handle task of type test'')"
proof -
  let ?a = "freshAgent\<lparr>this_status := ERROR\<rparr>"
  let ?b = "freshAgent\<lparr>this_status := STOPPING\<rparr>"
  have can: "canHandleTask sampleImpl (enterTask 0 x task) task" for x task
    by (simp add: sampleImpl_def)
  have body: "performTask sampleImpl (enterTask 0 ?a (namedTask ''ok'')) (namedTask ''ok'')
                = (Inr (okResult ''ok''), enterTask 0 ?a (namedTask ''ok''))"
    by (simp add: sampleImpl_def namedTask_def)
  have thrown: "performTask sampleImpl (enterTask 0 ?b (namedTask ''broken''))
                  (namedTask ''broken'')
                = (Inl (ErrorObject ''build failed''), enterTask 0 ?b (namedTask ''broken''))"
    by (simp add: sampleImpl_def namedTask_def)
  have refused: "\<not> canHandleTask developmentImpl (enterTask 0 ?a testTask) testTask"
    by (simp add: developmentImpl_def DevelopmentAgent_canHandleTask_def
          supportedTaskTypes_def testTask_def)
  have msg: "''Agent '' @ this_id ?a @ '' cannot handle task of type ''
               @ taskTypeValue (task_type testTask)
             = ''Agent backend-001 cannot handle task of type test''"
    by (simp add: freshAgent_def testTask_def)
  from executeTask_any_status
         [where impl = sampleImpl and startTime = 0 and endTime = 10 and a = freshAgent
            and s = ERROR and task = "namedTask ''ok''"]
  have eq: "executeTask sampleImpl 0 10 ?a (namedTask ''ok'')
              = executeTask sampleImpl 0 10 freshAgent (namedTask ''ok'')"
    by blast
  from executeTask_any_status
         [where impl = sampleImpl and startTime = 0 and endTime = 10 and a = ?a
            and s = ERROR and task = "namedTask ''ok''"] can body
  have res: "fst (executeTask sampleImpl 0 10 ?a (namedTask ''ok''))
               = Inr ((okResult ''ok'')\<lparr>res_duration := 10, res_completedAt := 10\<rparr>)"
    by simp
  from executeTask_any_status
         [where impl = sampleImpl and startTime = 0 and endTime = 10 and a = ?a
            and s = ERROR and task = "namedTask ''ok''"]
  have st: "this_status (snd (executeTask sampleImpl 0 10 ?a (namedTask ''ok''))) = ACTIVE"
    by auto
  from executeTask_any_status
         [where impl = sampleImpl and startTime = 0 and endTime = 10 and a = ?b
            and s = STOPPING and task = "namedTask ''broken''"] can thrown
  have bad: "\<exists>res. fst (executeTask sampleImpl 0 10 ?b (namedTask ''broken'')) = Inr res
               \<and> \<not> res_success res \<and> res_error res = Some ''build failed''"
    by simp
  from executeTask_any_status
         [where impl = developmentImpl and startTime = 0 and endTime = 10 and a = ?a
            and s = ERROR and task = testTask] refused
  have gate: "(\<forall>body. executeTask (developmentImpl\<lparr>performTask := body\<rparr>) 0 10 ?a testTask
                        = executeTask developmentImpl 0 10 ?a testTask)
              \<and> (\<exists>res. fst (executeTask developmentImpl 0 10 ?a testTask) = Inr res
                    \<and> \<not> res_success res
                    \<and> res_error res = Some (''Agent '' @ this_id ?a
                          @ '' cannot handle task of type ''
                          @ taskTypeValue (task_type testTask)))"
    by blast
  from gate have same: "executeTask (developmentImpl\<lparr>performTask := performTask sampleImpl\<rparr>)
                          0 10 ?a testTask
                        = executeTask developmentImpl 0 10 ?a testTask"
    by blast
  from gate msg have ref: "\<exists>res. fst (executeTask developmentImpl 0 10 ?a testTask) = Inr res
                    \<and> \<not> res_success res
                    \<and> res_error res = Some ''Agent backend-001 cannot handle task of type test''"
    by simp
  from eq res st bad same ref show ?thesis by simp
qed

text \<open>
  The claim without the gate fails on the code. An inactive development agent is given
  a task of type \<open>test\<close> whose body would return a successful result. The body is not
  run: \<open>executeTask\<close> returns the failed result of the refusal, and returns the same
  when the body is replaced by one that throws.
\<close>

theorem executeTask_any_status_counterexample:
  "fst (performTask developmentImpl
          (enterTask 0 (freshAgent\<lparr>this_status := INACTIVE\<rparr>) testTask) testTask)
     = Inr (okResult ''ok'')
   \<and> fst (executeTask developmentImpl 0 10 (freshAgent\<lparr>this_status := INACTIVE\<rparr>) testTask)
     = Inr \<lparr>res_taskId = ''ok'', res_success = False, res_output = None,
            res_error = Some ''Agent backend-001 cannot handle task of type test'',
            res_duration = 10, res_changedFiles = [], res_completedAt = 10\<rparr>
   \<and> executeTask (developmentImpl\<lparr>performTask := performTask sampleImpl\<rparr>) 0 10
         (freshAgent\<lparr>this_status := INACTIVE\<rparr>) testTask
     = executeTask developmentImpl 0 10 (freshAgent\<lparr>this_status := INACTIVE\<rparr>) testTask"
  by (simp add: executeTask_def executeTask_try_def enterTask_def updateStatus_def
        updateLastActivity_def Let_def developmentImpl_def DevelopmentAgent_canHandleTask_def
        supportedTaskTypes_def testTask_def namedTask_def freshAgent_def okResult_def)

text \<open>
  Claim C5, evaluated on the code. A started agent with the constructor's metrics runs
  three tasks: one that succeeds in 10 ms, then two that fail in 20 ms and 30 ms. One
  task of three succeeded and the mean duration is 20 ms, yet \<open>updateMetrics\<close> leaves
  \<open>successRate\<close> at 1/2 and \<open>averageTaskDuration\<close> at 22.5: it takes the total as
  \<open>tasksCompleted\<close> plus one for the failure at hand and keeps no count of earlier
  failures.
\<close>

theorem metrics_after_failures:
  "successRate (this_metrics (executeTasks sampleImpl failingRun freshAgent)) = 1 / 2
   \<and> averageTaskDuration (this_metrics (executeTasks sampleImpl failingRun freshAgent)) = 45 / 2
   \<and> tasksCompleted (this_metrics (executeTasks sampleImpl failingRun freshAgent)) = 1
   \<and> successRate (this_metrics (executeTasks sampleImpl failingRun freshAgent)) \<noteq> 1 / 3
   \<and> averageTaskDuration (this_metrics (executeTasks sampleImpl failingRun freshAgent))
       \<noteq> (10 + 20 + 30) / 3"
  by (simp add: failingRun_def executeTask_def executeTask_try_def enterTask_def
        updateStatus_def updateMetrics_def updateLastActivity_def Let_def
        sampleImpl_def namedTask_def okResult_def freshAgent_def)

section \<open>Properties of the worktree manager\<close>

text \<open>
  Claim C10. \<open>removeWorktreeForAgent\<close> never rejects: for every agent id it returns a
  result that carries the duration. When no worktree is registered for the id the
  result has \<open>success = false\<close> and an error message, and the map is unchanged. The map
  changes only when the result has \<open>success = true\<close>, and then by the deletion of that
  id's entry.
\<close>

theorem removeWorktreeForAgent_total:
  "\<exists>res mgr'. removeWorktreeForAgent env startTime endTime mgr agentId = (Inr res, mgr')
      \<and> op_duration res = endTime - startTime
      \<and> (map_of (worktrees mgr) agentId = None \<longrightarrow>
            \<not> op_success res \<and> op_error res \<noteq> None \<and> mgr' = mgr)
      \<and> (\<not> op_success res \<longrightarrow> mgr' = mgr)
      \<and> (op_success res \<longrightarrow>
            mgr' = mgr\<lparr>worktrees := AList.delete agentId (worktrees mgr)\<rparr>)"
  by (auto simp: removeWorktreeForAgent_def removeWorktreeForAgent_try_def Let_def
        split: option.splits)

text \<open>
  An unknown id, a registered worktree whose removal fails, and one whose removal
  succeeds.
\<close>

theorem removeWorktreeForAgent_total_witness:
  "(\<exists>res. removeWorktreeForAgent brokenEnv 5 9 staleManager ''zz'' = (Inr res, staleManager)
       \<and> op_duration res = 4 \<and> \<not> op_success res \<and> op_error res \<noteq> None)
   \<and> (\<exists>res. removeWorktreeForAgent brokenEnv 5 9 staleManager ''a1'' = (Inr res, staleManager)
       \<and> \<not> op_success res)
   \<and> (\<exists>res. removeWorktreeForAgent workingEnv 5 9 staleManager ''a1''
               = (Inr res, staleManager\<lparr>worktrees := []\<rparr>) \<and> op_success res)"
proof -
  have none: "map_of (worktrees staleManager) ''zz'' = None"
    by (simp add: staleManager_def)
  have a: "\<exists>res. removeWorktreeForAgent brokenEnv 5 9 staleManager ''zz'' = (Inr res, staleManager)
       \<and> op_duration res = 4 \<and> \<not> op_success res \<and> op_error res \<noteq> None"
    using removeWorktreeForAgent_total [of brokenEnv 5 9 staleManager "''zz''"] none by auto
  have fails: "\<not> op_success (removeWorktreeDirectory brokenEnv (wt_path staleWorktree))"
    by (simp add: removeWorktreeDirectory_def brokenEnv_def failed_def)
  have b: "\<exists>res. removeWorktreeForAgent brokenEnv 5 9 staleManager ''a1'' = (Inr res, staleManager)
       \<and> \<not> op_success res"
    using removeWorktreeForAgent_total [of brokenEnv 5 9 staleManager "''a1''"] fails
    by (auto simp: removeWorktreeForAgent_def removeWorktreeForAgent_try_def staleManager_def)
  have works: "op_success (removeWorktreeDirectory workingEnv (wt_path staleWorktree))"
    by (simp add: removeWorktreeDirectory_def workingEnv_def removed_def)
  have c: "\<exists>res. removeWorktreeForAgent workingEnv 5 9 staleManager ''a1''
               = (Inr res, staleManager\<lparr>worktrees := []\<rparr>) \<and> op_success res"
    using removeWorktreeForAgent_total [of workingEnv 5 9 staleManager "''a1''"] works
    by (auto simp: removeWorktreeForAgent_def removeWorktreeForAgent_try_def staleManager_def)
  from a b c show ?thesis by blast
qed

text \<open>
  Claim C4, evaluated on the code. The worktree of agent \<open>a1\<close> has been inactive for more
  than 24 hours and its removal fails. \<open>removeWorktreeForAgent\<close> reports the failure in
  its result and does not reject, so the \<open>catch\<close> block of \<open>cleanupStaleWorktrees\<close>
  that would mark the record is not entered: the record stays in the map with status
  \<open>active\<close>, not \<open>corrupted\<close>.
\<close>

theorem cleanupStaleWorktrees_failed_removal:
  "90000000 - wt_lastActivity staleWorktree > staleThreshold
   \<and> \<not> op_success (removeWorktreeDirectory brokenEnv (wt_path staleWorktree))
   \<and> cleanupStaleWorktrees brokenEnv 90000000 staleManager = staleManager
   \<and> map_option wt_status (map_of (worktrees (cleanupStaleWorktrees brokenEnv 90000000 staleManager)) ''a1'')
       = Some active"
  by (simp add: cleanupStaleWorktrees_def staleManager_def staleWorktree_def staleThreshold_def
        removeWorktreeForAgent_def removeWorktreeForAgent_try_def removeWorktreeDirectory_def
        brokenEnv_def failed_def)

section \<open>Properties of the conflict parser\<close>

lemma split_conflictFile:
  "splitOn (CHR 0x0A) conflictFile
     = [''<<<<<<< HEAD'', ''alpha'', ''======='', ''beta'', ''>>>>>>> feature'']"
  by (simp add: conflictFile_def)

text \<open>
  Claim C3, evaluated on the code. The file holds one region: the marker line
  \<open><<<<<<< HEAD\<close>, the line \<open>alpha\<close>, the separator, the line \<open>beta\<close> and the marker
  line \<open>>>>>>>> feature\<close>. The parser returns one section with the line numbers 1 and
  5 of the two markers, but both lines are in \<open>ours\<close> and \<open>theirs\<close> is undefined: the
  separator branch never sets \<open>theirs\<close>, so every later line is appended to \<open>ours\<close>.
\<close>

theorem parseConflictFile_sides:
  "parseConflictFile conflictFile
     = [\<lparr>startLine = Some 1, endLine = Some 5,
         ours = Some (''alpha'' @ [CHR 0x0A] @ ''beta'' @ [CHR 0x0A]), theirs = None\<rparr>]"
  by (simp add: parseConflictFile_def split_conflictFile parseLine_def truthy_def orEmpty_def)

end
